theory Spec2Isabelle
  imports Complex_Main "HOL-Library.Sublist"
begin

section \<open>Python numbers\<close>

text \<open>
  \<^verbatim>\<open>BadOrderService.py\<close> computes with Python numbers: \<^verbatim>\<open>total = 0\<close> is an unbounded
  \<^verbatim>\<open>int\<close>, the discount factors \<^verbatim>\<open>0.9\<close>, \<^verbatim>\<open>0.95\<close>, \<^verbatim>\<open>0.8\<close> and the shipping rates
  \<^verbatim>\<open>25.99\<close>, \<^verbatim>\<open>9.99\<close> are \<^verbatim>\<open>float\<close> literals, that is IEEE 754 binary64 values. A float
  is modelled by the rational it denotes (\<open>Fin\<close>, with \<open>Fin 0\<close> for \<^verbatim>\<open>0.0\<close>), by
  \<open>NegZero\<close> for \<^verbatim>\<open>-0.0\<close>, by the two infinities, or by \<open>NaN\<close>. Every operation computes
  the exact rational result and rounds it to the nearest binary64 value, ties to even, as the
  hardware does.
\<close>

datatype pyfloat = Fin rat | NegZero | PosInf | NegInf | NaN

datatype pynum = PInt int | PFloat pyfloat

datatype exn = KeyError string | OverflowError | OperationalError

definition pow2 :: "int \<Rightarrow> rat" where
  "pow2 e = (if 0 \<le> e then 2 ^ nat e else 1 / 2 ^ nat (- e))"

text \<open>The number of binary digits of a positive integer (Python's \<^verbatim>\<open>int.bit_length\<close>).\<close>

function bit_length :: "int \<Rightarrow> int" where
  "bit_length n = (if n \<le> 0 then 0 else 1 + bit_length (n div 2))"
  by pat_completeness auto
termination
  by (relation "measure nat") auto

declare bit_length.simps [simp del]

text \<open>The binary exponent \<open>e\<close> of a positive rational \<open>x\<close>: \<open>2^e \<le> x < 2^(e+1)\<close>.\<close>

definition binexp :: "rat \<Rightarrow> int" where
  "binexp x = (case quotient_of x of (p, q) \<Rightarrow>
     (let d = bit_length p - bit_length q
      in if pow2 d \<le> x then d else d - 1))"

definition round_half_even :: "rat \<Rightarrow> int" where
  "round_half_even x = (let f = \<lfloor>x\<rfloor>; r = x - of_int f in
     if r < 1 / 2 then f else if 1 / 2 < r then f + 1 else if even f then f else f + 1)"

text \<open>
  The spacing of binary64 values around \<open>x\<close>: 53 significant bits for normal numbers, the
  fixed spacing \<open>2^(-1074)\<close> below \<open>2^(-1022)\<close> (subnormal numbers).
\<close>

definition ulp :: "rat \<Rightarrow> rat" where
  "ulp x = pow2 (max (binexp x) (- 1022) - 52)"

definition round_mag :: "rat \<Rightarrow> rat" where
  "round_mag x = (if x = 0 then 0 else of_int (round_half_even (x / ulp x)) * ulp x)"

text \<open>
  Rounding of a result given by its sign and its magnitude \<open>m \<ge> 0\<close>; a rounded magnitude of
  \<open>2^1024\<close> or more (binary exponent 1024 or more) overflows to an infinity, one of zero
  keeps the sign.
\<close>

definition round_double :: "bool \<Rightarrow> rat \<Rightarrow> pyfloat" where
  "round_double neg m = (let r = round_mag m in
     if r = 0 then (if neg then NegZero else Fin 0)
     else if 1024 \<le> binexp r then (if neg then NegInf else PosInf)
     else Fin (if neg then - r else r))"

text \<open>A float literal of the source denotes the binary64 value nearest to its decimal text.\<close>

definition float_lit :: "rat \<Rightarrow> pyfloat" where
  "float_lit x = round_double (x < 0) \<bar>x\<bar>"

fun is_inf :: "pyfloat \<Rightarrow> bool" where
  "is_inf PosInf = True"
| "is_inf NegInf = True"
| "is_inf _ = False"

fun is_zero :: "pyfloat \<Rightarrow> bool" where
  "is_zero (Fin r) = (r = 0)"
| "is_zero NegZero = True"
| "is_zero _ = False"

fun fsign :: "pyfloat \<Rightarrow> bool" where
  "fsign (Fin r) = (r < 0)"
| "fsign NegZero = True"
| "fsign NegInf = True"
| "fsign _ = False"

fun fval :: "pyfloat \<Rightarrow> rat" where
  "fval (Fin r) = r"
| "fval _ = 0"

definition fmul :: "pyfloat \<Rightarrow> pyfloat \<Rightarrow> pyfloat" where
  "fmul a b =
     (if a = NaN \<or> b = NaN then NaN
      else if is_inf a \<or> is_inf b then
        (if is_zero a \<or> is_zero b then NaN
         else if fsign a \<noteq> fsign b then NegInf else PosInf)
      else round_double (fsign a \<noteq> fsign b) (\<bar>fval a\<bar> * \<bar>fval b\<bar>))"

definition fadd :: "pyfloat \<Rightarrow> pyfloat \<Rightarrow> pyfloat" where
  "fadd a b =
     (if a = NaN \<or> b = NaN then NaN
      else if is_inf a \<and> is_inf b then (if a = b then a else NaN)
      else if is_inf a then a
      else if is_inf b then b
      else (let s = fval a + fval b in
        if s = 0 then (if a = NegZero \<and> b = NegZero then NegZero else Fin 0)
        else round_double (s < 0) \<bar>s\<bar>))"

text \<open>
  An \<^verbatim>\<open>int\<close> operand of a mixed operation is converted to \<^verbatim>\<open>float\<close> first, correctly
  rounded; Python raises \<^verbatim>\<open>OverflowError\<close> (int too large to convert to float) when the
  integer is beyond the binary64 range.
\<close>

definition int_to_float :: "int \<Rightarrow> exn + pyfloat" where
  "int_to_float i =
     (case round_double (i < 0) (of_int \<bar>i\<bar>) of
        PosInf \<Rightarrow> Inl OverflowError
      | NegInf \<Rightarrow> Inl OverflowError
      | f \<Rightarrow> Inr f)"

fun py_mul :: "pynum \<Rightarrow> pynum \<Rightarrow> exn + pynum" where
  "py_mul (PInt a) (PInt b) = Inr (PInt (a * b))"
| "py_mul (PInt a) (PFloat b) =
     (case int_to_float a of Inl e \<Rightarrow> Inl e | Inr fa \<Rightarrow> Inr (PFloat (fmul fa b)))"
| "py_mul (PFloat a) (PInt b) =
     (case int_to_float b of Inl e \<Rightarrow> Inl e | Inr fb \<Rightarrow> Inr (PFloat (fmul a fb)))"
| "py_mul (PFloat a) (PFloat b) = Inr (PFloat (fmul a b))"

fun py_add :: "pynum \<Rightarrow> pynum \<Rightarrow> exn + pynum" where
  "py_add (PInt a) (PInt b) = Inr (PInt (a + b))"
| "py_add (PInt a) (PFloat b) =
     (case int_to_float a of Inl e \<Rightarrow> Inl e | Inr fa \<Rightarrow> Inr (PFloat (fadd fa b)))"
| "py_add (PFloat a) (PInt b) =
     (case int_to_float b of Inl e \<Rightarrow> Inl e | Inr fb \<Rightarrow> Inr (PFloat (fadd a fb)))"
| "py_add (PFloat a) (PFloat b) = Inr (PFloat (fadd a b))"

text \<open>
  Comparisons of Python numbers are exact, also between \<^verbatim>\<open>int\<close> and \<^verbatim>\<open>float\<close>: each
  number is placed on the extended rational line, and every comparison with \<^verbatim>\<open>nan\<close> is
  false.
\<close>

datatype ext = MinusInfinity | Rational rat | PlusInfinity

fun ext_of :: "pynum \<Rightarrow> ext option" where
  "ext_of (PInt i) = Some (Rational (of_int i))"
| "ext_of (PFloat (Fin r)) = Some (Rational r)"
| "ext_of (PFloat NegZero) = Some (Rational 0)"
| "ext_of (PFloat PosInf) = Some PlusInfinity"
| "ext_of (PFloat NegInf) = Some MinusInfinity"
| "ext_of (PFloat NaN) = None"

fun ext_less :: "ext \<Rightarrow> ext \<Rightarrow> bool" where
  "ext_less (Rational x) (Rational y) = (x < y)"
| "ext_less MinusInfinity MinusInfinity = False"
| "ext_less MinusInfinity _ = True"
| "ext_less PlusInfinity _ = False"
| "ext_less (Rational x) PlusInfinity = True"
| "ext_less (Rational x) MinusInfinity = False"

definition py_gt :: "pynum \<Rightarrow> pynum \<Rightarrow> bool" where
  "py_gt a b = (case (ext_of a, ext_of b) of
     (Some x, Some y) \<Rightarrow> ext_less y x | _ \<Rightarrow> False)"

definition py_eq :: "pynum \<Rightarrow> pynum \<Rightarrow> bool" where
  "py_eq a b = (case (ext_of a, ext_of b) of
     (Some x, Some y) \<Rightarrow> x = y | _ \<Rightarrow> False)"

definition py_ge :: "pynum \<Rightarrow> pynum \<Rightarrow> bool" where
  "py_ge a b = (py_gt a b \<or> py_eq a b)"

section \<open>Python values and strings\<close>

datatype pyval = VNone | VBool bool | VNum pynum | VStr string | VList "pyval list"

text \<open>
  \<^verbatim>\<open>s.startswith(p)\<close>: the first \<open>length p\<close> characters of \<open>s\<close> are \<open>p\<close>. A string is the
  list of the bytes of its UTF-8 text; for an ASCII \<open>p\<close> such as \<^verbatim>\<open>'VIP'\<close> the prefixes of
  the bytes and of the characters agree, as does equality with an ASCII literal.
\<close>

definition startswith :: "string \<Rightarrow> string \<Rightarrow> bool" where
  "startswith s p = (take (length p) s = p)"

section \<open>The service and its environment\<close>

text \<open>
  An \<^verbatim>\<open>OrderService\<close> holds a connection to \<^verbatim>\<open>orders.db\<close> and a cursor on it; it also
  writes to standard output and reads the clock. The state below holds all four.

  A timestamp is the text of a \<^verbatim>\<open>datetime\<close>; the \<open>n\<close>-th call of \<^verbatim>\<open>datetime.now()\<close>
  returns \<open>clock n\<close>.
\<close>

type_synonym timestamp = string

text \<open>
  Modelled from the spec: the \<^verbatim>\<open>orders\<close> table is created outside this file, with the
  columns customer, total and date. \<^verbatim>\<open>get_order_by_id\<close> selects on a column \<^verbatim>\<open>id\<close>, taken
  here to be SQLite's integer key of the row (one more than the largest key in the table).
  A row holds that key and the three values bound by the \<^verbatim>\<open>INSERT\<close>; the total of a
  row is \<open>None\<close> when the stored value is \<^verbatim>\<open>NULL\<close>.
\<close>

record order_row =
  row_id :: int
  row_customer :: string
  row_total :: "pynum option"
  row_date :: timestamp

text \<open>
  \<open>orders\<close> is \<open>None\<close> when the table does not exist. \<open>cursor_rows\<close> are the rows the
  cursor has selected and not yet fetched; \<open>stdout\<close> are the printed lines.
\<close>

datatype piece = Text string | Shown pynum

record service =
  orders :: "order_row list option"
  in_transaction :: bool
  cursor_rows :: "order_row list"
  stdout :: "piece list list"
  clock :: "nat \<Rightarrow> timestamp"
  ticks :: nat

section \<open>The auxiliary methods\<close>

text \<open>
  \<^verbatim>\<open>
  def is_premium_customer(self, customer_name):
      if isinstance(customer_name, str):
          return customer_name.startswith('VIP')
      return False
  \<close>
\<close>

definition is_premium_customer :: "service \<Rightarrow> pyval \<Rightarrow> bool \<times> service" where
  "is_premium_customer self customer_name =
     (case customer_name of
        VStr s \<Rightarrow> (startswith s ''VIP'', self)
      | _ \<Rightarrow> (False, self))"

text \<open>
  \<^verbatim>\<open>
  def calculate_shipping(self, weight):
      if weight > 50:
          return 25.99
      return 9.99
  \<close>
\<close>

definition calculate_shipping :: "service \<Rightarrow> pynum \<Rightarrow> pynum \<times> service" where
  "calculate_shipping self weight =
     (if py_gt weight (PInt 50) then (PFloat (float_lit (2599 / 100)), self)
      else (PFloat (float_lit (999 / 100)), self))"

section \<open>Processing an order\<close>

text \<open>
  An item is a Python dictionary; the code reads its keys \<^verbatim>\<open>'price'\<close> and
  \<^verbatim>\<open>'quantity'\<close>, whose values are numbers. A missing key raises \<^verbatim>\<open>KeyError\<close>.
\<close>

type_synonym item = "string \<rightharpoonup> pynum"

text \<open>
  \<^verbatim>\<open>
  total = 0
  for item in items:
      total += item['price'] * item['quantity']
  \<close>
  The loop, with the running total as a parameter.
\<close>

fun calculate_total :: "pynum \<Rightarrow> item list \<Rightarrow> exn + pynum" where
  "calculate_total total' [] = Inr total'"
| "calculate_total total' (item # items) =
     (case item ''price'' of
        None \<Rightarrow> Inl (KeyError ''price'')
      | Some price \<Rightarrow>
     (case item ''quantity'' of
        None \<Rightarrow> Inl (KeyError ''quantity'')
      | Some quantity \<Rightarrow>
     (case py_mul price quantity of
        Inl e \<Rightarrow> Inl e
      | Inr line \<Rightarrow>
     (case py_add total' line of
        Inl e \<Rightarrow> Inl e
      | Inr total'' \<Rightarrow> calculate_total total'' items))))"

text \<open>
  \<^verbatim>\<open>
  if order_type == 'premium':
      total = total * 0.9
  elif order_type == 'regular':
      total = total * 0.95
  elif order_type == 'wholesale':
      total = total * 0.8
  \<close>
\<close>

definition apply_discount :: "string \<Rightarrow> pynum \<Rightarrow> exn + pynum" where
  "apply_discount order_type total' =
     (if order_type = ''premium'' then py_mul total' (PFloat (float_lit (9 / 10)))
      else if order_type = ''regular'' then py_mul total' (PFloat (float_lit (95 / 100)))
      else if order_type = ''wholesale'' then py_mul total' (PFloat (float_lit (8 / 10)))
      else Inr total')"

text \<open>
  \<^verbatim>\<open>
  if discount_code:
      if discount_code == 'SAVE10':
          total = total * 0.9
      elif discount_code == 'SAVE20':
          total = total * 0.8
  \<close>
  The discount code is \<^verbatim>\<open>None\<close> or a string; \<^verbatim>\<open>None\<close> and the empty string are false.
\<close>

definition truthy :: "string option \<Rightarrow> bool" where
  "truthy discount_code = (case discount_code of None \<Rightarrow> False | Some s \<Rightarrow> s \<noteq> [])"

definition validate_discount_code :: "string option \<Rightarrow> pynum \<Rightarrow> exn + pynum" where
  "validate_discount_code discount_code total' =
     (if truthy discount_code then
        (if discount_code = Some ''SAVE10'' then py_mul total' (PFloat (float_lit (9 / 10)))
         else if discount_code = Some ''SAVE20'' then py_mul total' (PFloat (float_lit (8 / 10)))
         else Inr total')
      else Inr total')"

text \<open>Lines 29 to 46 of \<^verbatim>\<open>process_order\<close>: the total of the order.\<close>

definition order_total :: "string \<Rightarrow> item list \<Rightarrow> string option \<Rightarrow> exn + pynum" where
  "order_total order_type items discount_code =
     (case calculate_total (PInt 0) items of
        Inl e \<Rightarrow> Inl e
      | Inr total' \<Rightarrow>
     (case apply_discount order_type total' of
        Inl e \<Rightarrow> Inl e
      | Inr total'' \<Rightarrow> validate_discount_code discount_code total''))"

definition datetime_now :: "service \<Rightarrow> timestamp \<times> service" where
  "datetime_now self = (clock self (ticks self), self\<lparr>ticks := Suc (ticks self)\<rparr>)"

text \<open>
  \<^verbatim>\<open>cursor.execute('INSERT INTO orders (customer, total, date) VALUES (?, ?, ?)', ...)\<close>.
  The cursor first drops the rows it still held. The statement is prepared, which fails with
  \<^verbatim>\<open>OperationalError\<close> when there is no table; then a transaction is begun; then the
  parameters are bound, which fails with \<^verbatim>\<open>OverflowError\<close> when the total is an \<^verbatim>\<open>int\<close>
  outside SQLite's 64-bit integers, the transaction staying open; then one row is appended.
  A total of \<^verbatim>\<open>nan\<close> is bound as \<^verbatim>\<open>NULL\<close>. \<^verbatim>\<open>db.commit()\<close> ends the transaction.
\<close>

fun sqlite_bindable :: "pynum \<Rightarrow> bool" where
  "sqlite_bindable (PInt i) = (- (2 ^ 63) \<le> i \<and> i < 2 ^ 63)"
| "sqlite_bindable (PFloat f) = True"

definition sqlite_value :: "pynum \<Rightarrow> pynum option" where
  "sqlite_value t = (if t = PFloat NaN then None else Some t)"

definition next_rowid :: "order_row list \<Rightarrow> int" where
  "next_rowid rows = foldr max (map row_id rows) 0 + 1"

definition execute_insert ::
  "service \<Rightarrow> string \<Rightarrow> pynum \<Rightarrow> timestamp \<Rightarrow> (exn + unit) \<times> service" where
  "execute_insert self c t d =
     (case orders self of
        None \<Rightarrow> (Inl OperationalError, self\<lparr>cursor_rows := []\<rparr>)
      | Some rows \<Rightarrow>
          if sqlite_bindable t then
            (Inr (), self\<lparr>orders := Some (rows @
                   [\<lparr>row_id = next_rowid rows, row_customer = c,
                     row_total = sqlite_value t, row_date = d\<rparr>]),
                 in_transaction := True, cursor_rows := []\<rparr>)
          else (Inl OverflowError, self\<lparr>in_transaction := True, cursor_rows := []\<rparr>))"

definition commit :: "service \<Rightarrow> service" where
  "commit self = self\<lparr>in_transaction := False\<rparr>"

text \<open>
  \<^verbatim>\<open>
  def send_email(self, email, total):
      print(f"Email sent to {email} for ${total}")
  \<close>
  A printed line is kept as its pieces; \<open>Shown\<close> is the text of a number.
\<close>

definition send_email :: "service \<Rightarrow> string \<Rightarrow> pynum \<Rightarrow> service" where
  "send_email self email total' =
     self\<lparr>stdout := stdout self @
       [[Text ''Email sent to '', Text email, Text '' for $'', Shown total']]\<rparr>"

text \<open>
  \<^verbatim>\<open>
  def format_order(self, customer_name, total):
      return json.dumps({'customer': customer_name, 'total': total,
                         'timestamp': str(datetime.now())})
  \<close>
  The returned string is kept as the JSON document it is the text of.
\<close>

datatype json = JString string | JNumber pynum | JObject "(string \<times> json) list"

definition format_order :: "service \<Rightarrow> string \<Rightarrow> pynum \<Rightarrow> json \<times> service" where
  "format_order self customer_name total' =
     (case datetime_now self of (now, self') \<Rightarrow>
        (JObject [(''customer'', JString customer_name), (''total'', JNumber total'),
                  (''timestamp'', JString now)], self'))"

text \<open>
  Lines 48 to 59 of \<^verbatim>\<open>process_order\<close>: save to the database, send the email, format
  and return. An exception leaves the function at once, with the state reached so far.
\<close>

definition save_send_format ::
  "service \<Rightarrow> string \<Rightarrow> string \<Rightarrow> pynum \<Rightarrow> (exn + json) \<times> service" where
  "save_send_format self customer_name email total' =
     (case datetime_now self of (now, self1) \<Rightarrow>
        (case execute_insert self1 customer_name total' now of
           (Inl e, self2) \<Rightarrow> (Inl e, self2)
         | (Inr u, self2) \<Rightarrow>
             (case format_order (send_email (commit self2) email total') customer_name total' of
                (doc, self3) \<Rightarrow> (Inr doc, self3))))"

definition process_order ::
  "service \<Rightarrow> string \<Rightarrow> string \<Rightarrow> string \<Rightarrow> item list \<Rightarrow> string option
     \<Rightarrow> (exn + json) \<times> service" where
  "process_order self order_type customer_name email items discount_code =
     (case order_total order_type items discount_code of
        Inl e \<Rightarrow> (Inl e, self)
      | Inr total' \<Rightarrow> save_send_format self customer_name email total')"

text \<open>
  \<^verbatim>\<open>
  def get_order_by_id(self, order_id):
      self.cursor.execute('SELECT * FROM orders WHERE id = ?', (order_id,))
      return self.cursor.fetchone()
  \<close>
  The cursor drops the rows it still held and holds the selected rows; \<^verbatim>\<open>fetchone\<close>
  takes the first, or returns \<^verbatim>\<open>None\<close>.
\<close>

definition get_order_by_id :: "service \<Rightarrow> int \<Rightarrow> (exn + order_row option) \<times> service" where
  "get_order_by_id self order_id =
     (case orders self of
        None \<Rightarrow> (Inl OperationalError, self\<lparr>cursor_rows := []\<rparr>)
      | Some rows \<Rightarrow>
          (case filter (\<lambda>r. row_id r = order_id) rows of
             [] \<Rightarrow> (Inr None, self\<lparr>cursor_rows := []\<rparr>)
           | r # rs \<Rightarrow> (Inr (Some r), self\<lparr>cursor_rows := rs\<rparr>)))"

section \<open>Example inputs\<close>

text \<open>The dictionary \<^verbatim>\<open>{'price': p, 'quantity': q}\<close>.\<close>

definition line_item :: "pynum \<Rightarrow> pynum \<Rightarrow> item" where
  "line_item p q = [''price'' \<mapsto> p, ''quantity'' \<mapsto> q]"

text \<open>A service on an empty \<^verbatim>\<open>orders\<close> table.\<close>

definition fresh_service :: service where
  "fresh_service = \<lparr>orders = Some [], in_transaction = False, cursor_rows = [], stdout = [],
     clock = (\<lambda>n. if n = 0 then ''2024-05-01 09:30:00.000250'' else ''2024-05-01 09:30:00.000980''),
     ticks = 0\<rparr>"

section \<open>Properties of numbers and of a completed order\<close>

text \<open>\<^verbatim>\<open>x >= 0\<close>, and \<^verbatim>\<open>math.isfinite(x)\<close>.\<close>

definition non_negative :: "pynum \<Rightarrow> bool" where
  "non_negative x = py_ge x (PInt 0)"

fun finite_num :: "pynum \<Rightarrow> bool" where
  "finite_num (PInt i) = True"
| "finite_num (PFloat (Fin r)) = True"
| "finite_num (PFloat NegZero) = True"
| "finite_num (PFloat f) = False"

text \<open>An item that has both keys, with finite non-negative numbers.\<close>

definition valid_item :: "item \<Rightarrow> bool" where
  "valid_item item =
     (case (item ''price'', item ''quantity'') of
        (Some p, Some q) \<Rightarrow> non_negative p \<and> finite_num p \<and> non_negative q \<and> finite_num q
      | _ \<Rightarrow> False)"

text \<open>
  What a call that started in \<open>self\<close> has done when it persisted, announced and returned the
  total \<open>t\<close>: one row with \<open>t\<close> (as SQLite stores it) after the rows that were there, one
  printed line with \<open>t\<close> after the lines that were there, and the document with \<open>t\<close> as the
  result.
\<close>

definition completed_with ::
  "service \<Rightarrow> string \<Rightarrow> string \<Rightarrow> pynum \<Rightarrow> json \<Rightarrow> service \<Rightarrow> bool" where
  "completed_with self c e t doc self' =
     (case orders self of
        None \<Rightarrow> False
      | Some rows \<Rightarrow>
          orders self' = Some (rows @
            [\<lparr>row_id = next_rowid rows, row_customer = c, row_total = sqlite_value t,
              row_date = clock self (ticks self)\<rparr>])
          \<and> stdout self' = stdout self @
            [[Text ''Email sent to '', Text e, Text '' for $'', Shown t]]
          \<and> doc = JObject [(''customer'', JString c), (''total'', JNumber t),
              (''timestamp'', JString (clock self (Suc (ticks self))))])"

section \<open>The steps of an order, as the specification lists them\<close>











text \<open>The floats that are \<^verbatim>\<open>>= 0\<close>: the finite non-negative ones, \<^verbatim>\<open>-0.0\<close> and \<^verbatim>\<open>inf\<close>.\<close>

fun nn_float :: "pyfloat \<Rightarrow> bool" where
  "nn_float (Fin r) = (0 \<le> r)"
| "nn_float NegZero = True"
| "nn_float PosInf = True"
| "nn_float _ = False"

section \<open>Facts about the number model\<close>

text \<open>The literals of the source, as binary64 values.\<close>

lemma float_lit_09: "float_lit (9 / 10) = Fin (8106479329266893 / 9007199254740992)"
  by code_simp

lemma float_lit_095: "float_lit (19 / 20) = Fin (4278419646001971 / 4503599627370496)"
  by code_simp

lemma float_lit_08: "float_lit (4 / 5) = Fin (3602879701896397 / 4503599627370496)"
  by code_simp

lemma float_lit_2599: "float_lit (2599 / 100) = Fin (7315534644709949 / 281474976710656)"
  by code_simp

lemma float_lit_999: "float_lit (999 / 100) = Fin (5623870034678907 / 562949953421312)"
  by code_simp

text \<open>
  Well-known results of Python's float arithmetic, reproduced by the model:
  \<^verbatim>\<open>0.1 + 0.2\<close> is \<^verbatim>\<open>0.30000000000000004\<close> and not \<^verbatim>\<open>0.3\<close>, \<^verbatim>\<open>100 * 1.1\<close> is
  \<^verbatim>\<open>110.00000000000001\<close>, and \<^verbatim>\<open>float(2**53 + 1)\<close> rounds to the even neighbour
  \<^verbatim>\<open>2.0**53\<close>.
\<close>

lemma binary64_examples:
  "fadd (float_lit (1 / 10)) (float_lit (2 / 10)) = Fin (1351079888211149 / 4503599627370496)"
  "float_lit (3 / 10) = Fin (5404319552844595 / 18014398509481984)"
  "py_mul (PInt 100) (PFloat (float_lit (11 / 10)))
     = Inr (PFloat (Fin (7740561859543041 / 70368744177664)))"
  "int_to_float (2 ^ 53 + 1) = Inr (Fin (2 ^ 53))"
  "int_to_float (2 ^ 53 + 3) = Inr (Fin (2 ^ 53 + 4))"
  by code_simp+

text \<open>The products of the specification's examples, each rounded once.\<close>

lemma int_to_float_100: "int_to_float 100 = Inr (Fin 100)"
  by code_simp

lemma fmul_100_09: "fmul (Fin 100) (Fin (8106479329266893 / 9007199254740992)) = Fin 90"
  by code_simp

lemma fmul_100_095: "fmul (Fin 100) (Fin (4278419646001971 / 4503599627370496)) = Fin 95"
  by code_simp

lemma fmul_95_09: "fmul (Fin 95) (Fin (8106479329266893 / 9007199254740992)) = Fin (171 / 2)"
  by code_simp

lemma fmul_100_08: "fmul (Fin 100) (Fin (3602879701896397 / 4503599627370496)) = Fin 80"
  by code_simp

lemma fmul_80_08: "fmul (Fin 80) (Fin (3602879701896397 / 4503599627370496)) = Fin 64"
  by code_simp

text \<open>
  The binary exponent is the right one, so the overflow test of \<open>round_double\<close> is the
  comparison with \<open>2^1024\<close>.
\<close>

lemma pow2_powi: "pow2 e = 2 powi e"
  by (simp add: pow2_def power_int_def inverse_eq_divide power_one_over)

lemma bit_length_nonneg: "0 \<le> bit_length n"
  by (induction n rule: bit_length.induct) (subst bit_length.simps, simp)

lemma bit_length_bounds:
  "0 < n \<Longrightarrow> 2 ^ nat (bit_length n - 1) \<le> n \<and> n < 2 ^ nat (bit_length n)"
proof (induction n rule: bit_length.induct)
  case (1 n)
  show ?case
  proof (cases "n div 2 = 0")
    case True
    with "1.prems" have "n = 1" by presburger
    then show ?thesis by (simp add: bit_length.simps [of 1] bit_length.simps [of 0])
  next
    case False
    with "1.prems" have h: "0 < n div 2" by presburger
    define k where "k = bit_length (n div 2)"
    from "1.IH" "1.prems" h have ih: "2 ^ nat (k - 1) \<le> n div 2" "n div 2 < 2 ^ nat k"
      by (simp_all add: k_def)
    have kpos: "0 < k"
    proof (rule ccontr)
      assume "\<not> 0 < k"
      with ih(2) h show False by simp
    qed
    have bl: "bit_length n = 1 + k"
      using "1.prems" by (subst bit_length.simps) (simp add: k_def)
    have e: "nat k = Suc (nat (k - 1))" using kpos by simp
    from ih have "2 * 2 ^ nat (k - 1) \<le> n" "n < 2 * 2 ^ nat k" by presburger+
    then have "2 ^ nat k \<le> n" "n < 2 ^ Suc (nat k)" by (simp_all add: e)
    moreover have "nat (bit_length n - 1) = nat k" "nat (bit_length n) = Suc (nat k)"
      using kpos by (simp_all add: bl)
    ultimately show ?thesis by simp
  qed
qed

lemma binexp_bounds:
  assumes "0 < x"
  shows "pow2 (binexp x) \<le> x \<and> x < pow2 (binexp x + 1)"
proof -
  obtain p q where pq: "quotient_of x = (p, q)" by (cases "quotient_of x")
  then have q: "0 < q" and x: "x = of_int p / of_int q"
    by (auto simp: quotient_of_denom_pos quotient_of_div)
  from assms q x have p: "0 < p" by (simp add: zero_less_divide_iff)
  define a where "a = bit_length p"
  define b where "b = bit_length q"
  from bit_length_bounds [OF p] have pa: "2 ^ nat (a - 1) \<le> p" "p < 2 ^ nat a"
    by (simp_all add: a_def)
  from bit_length_bounds [OF q] have qb: "2 ^ nat (b - 1) \<le> q" "q < 2 ^ nat b"
    by (simp_all add: b_def)
  have apos: "0 < a" using pa(2) p by (cases "0 < a") auto
  have bpos: "0 < b" using qb(2) q by (cases "0 < b") auto
  have P1: "(2::rat) powi (a - 1) \<le> of_int p"
  proof -
    have "(of_int (2 ^ nat (a - 1)) :: rat) \<le> of_int p" using pa(1) by (simp only: of_int_le_iff)
    then show ?thesis using apos by (simp add: power_int_def)
  qed
  have P2: "of_int p < (2::rat) powi a"
  proof -
    have "(of_int p :: rat) < of_int (2 ^ nat a)" using pa(2) by (simp only: of_int_less_iff)
    then show ?thesis using apos by (simp add: power_int_def)
  qed
  have Q1: "(2::rat) powi (b - 1) \<le> of_int q"
  proof -
    have "(of_int (2 ^ nat (b - 1)) :: rat) \<le> of_int q" using qb(1) by (simp only: of_int_le_iff)
    then show ?thesis using bpos by (simp add: power_int_def)
  qed
  have Q2: "of_int q < (2::rat) powi b"
  proof -
    have "(of_int q :: rat) < of_int (2 ^ nat b)" using qb(2) by (simp only: of_int_less_iff)
    then show ?thesis using bpos by (simp add: power_int_def)
  qed
  have pos: "\<And>e. (0::rat) < 2 powi e" by (simp add: zero_less_power_int)
  have up: "x < 2 powi (a - b + 1)"
  proof -
    have "of_int p / of_int q < (2::rat) powi a / 2 powi (b - 1)"
      using P2 Q1 p pos [of "b - 1"] by (intro frac_less) simp_all
    also have "(2::rat) powi a / 2 powi (b - 1) = 2 powi (a - (b - 1))"
      by (simp add: power_int_diff)
    finally show ?thesis by (simp add: x algebra_simps)
  qed
  have lo: "2 powi (a - b - 1) \<le> x"
  proof -
    have "(2::rat) powi (a - 1) / 2 powi b \<le> of_int p / of_int q"
      using P1 Q2 q p by (intro frac_le) simp_all
    moreover have "(2::rat) powi (a - 1) / 2 powi b = 2 powi (a - 1 - b)"
      by (simp add: power_int_diff)
    ultimately show ?thesis by (simp add: x algebra_simps)
  qed
  have d: "binexp x = (if 2 powi (a - b) \<le> x then a - b else a - b - 1)"
    by (simp add: binexp_def pq a_def b_def pow2_powi Let_def)
  show ?thesis
  proof (cases "2 powi (a - b) \<le> x")
    case True
    with up d show ?thesis by (simp add: pow2_powi)
  next
    case False
    with lo d show ?thesis by (simp add: pow2_powi)
  qed
qed

lemma pow2_mono: "a \<le> b \<Longrightarrow> pow2 a \<le> pow2 b"
  by (simp add: pow2_powi power_int_increasing)

text \<open>A positive value has binary exponent 1024 or more exactly when it reaches \<open>2^1024\<close>.\<close>

lemma overflow_threshold: "0 < r \<Longrightarrow> (1024 \<le> binexp r) = (2 ^ 1024 \<le> r)"
proof -
  assume r: "0 < r"
  have e: "pow2 1024 = 2 ^ 1024" by (simp add: pow2_def)
  show ?thesis
  proof
    assume "1024 \<le> binexp r"
    then have "pow2 1024 \<le> pow2 (binexp r)" by (rule pow2_mono)
    with binexp_bounds [OF r] show "2 ^ 1024 \<le> r" by (simp add: e)
  next
    assume h: "2 ^ 1024 \<le> r"
    show "1024 \<le> binexp r"
    proof (rule ccontr)
      assume "\<not> 1024 \<le> binexp r"
      then have "binexp r + 1 \<le> 1024" by simp
      then have "pow2 (binexp r + 1) \<le> pow2 1024" by (rule pow2_mono)
      with binexp_bounds [OF r] h show False by (simp add: e)
    qed
  qed
qed

text \<open>Rounding moves a value by at most half the spacing, to a multiple of the spacing.\<close>

lemma round_half_even_near: "\<bar>of_int (round_half_even x) - x\<bar> \<le> 1 / 2"
proof -
  define d where "d = x - of_int \<lfloor>x\<rfloor>"
  have d: "0 \<le> d" "d < 1"
    using floor_correct [of x] by (simp_all add: d_def)
  have "of_int (round_half_even x) - x =
      (if d < 1 / 2 then - d else if 1 / 2 < d then 1 - d
       else if even \<lfloor>x\<rfloor> then - d else 1 - d)"
    by (simp add: round_half_even_def Let_def d_def)
  also have "\<bar>\<dots>\<bar> \<le> 1 / 2"
    using d by (simp add: abs_if)
  finally show ?thesis .
qed

lemma round_mag_near: "\<bar>round_mag x - x\<bar> \<le> ulp x / 2"
proof (cases "x = 0")
  case True
  then show ?thesis by (simp add: round_mag_def ulp_def pow2_powi)
next
  case False
  have u: "0 < ulp x" by (simp add: ulp_def pow2_powi zero_less_power_int)
  have "\<bar>of_int (round_half_even (x / ulp x)) - x / ulp x\<bar> * ulp x \<le> 1 / 2 * ulp x"
    using round_half_even_near [of "x / ulp x"] u by (intro mult_right_mono) simp_all
  moreover have "\<bar>of_int (round_half_even (x / ulp x)) - x / ulp x\<bar> * ulp x
      = \<bar>round_mag x - x\<bar>"
  proof -
    have "\<bar>of_int (round_half_even (x / ulp x)) - x / ulp x\<bar> * ulp x
        = \<bar>(of_int (round_half_even (x / ulp x)) - x / ulp x) * ulp x\<bar>"
      using u by (simp add: abs_mult)
    also have "(of_int (round_half_even (x / ulp x)) - x / ulp x) * ulp x = round_mag x - x"
      using u False by (simp add: round_mag_def algebra_simps)
    finally show ?thesis .
  qed
  ultimately show ?thesis by simp
qed

text \<open>Rounding keeps a non-negative value non-negative.\<close>

lemma pow2_pos: "0 < pow2 e"
  by (simp add: pow2_def)

lemma round_half_even_nonneg: "0 \<le> x \<Longrightarrow> 0 \<le> round_half_even x"
  by (auto simp: round_half_even_def Let_def)

lemma round_mag_nonneg: "0 \<le> x \<Longrightarrow> 0 \<le> round_mag x"
  using pow2_pos [of "max (binexp x) (- 1022) - 52"]
  by (simp add: round_mag_def ulp_def round_half_even_nonneg)

lemma round_mag_zero: "round_mag 0 = 0"
  by (simp add: round_mag_def)

lemma round_double_zero: "round_double neg 0 = (if neg then NegZero else Fin 0)"
  by (simp add: round_double_def round_mag_zero)

lemma round_double_nn: "0 \<le> m \<Longrightarrow> nn_float (round_double False m)"
  using round_mag_nonneg [of m] by (simp add: round_double_def Let_def)

lemma non_negative_PFloat: "non_negative (PFloat f) = nn_float f"
  by (cases f) (auto simp: non_negative_def py_ge_def py_gt_def py_eq_def)

lemma non_negative_PInt: "non_negative (PInt i) = (0 \<le> i)"
  by (auto simp: non_negative_def py_ge_def py_gt_def py_eq_def)

lemma fmul_nn:
  assumes "nn_float a" "nn_float b" "\<not> (is_inf a \<and> is_zero b)" "\<not> (is_zero a \<and> is_inf b)"
  shows "nn_float (fmul a b)"
  using assms
  by (cases a; cases b) (auto simp: fmul_def round_double_zero round_double_nn)

lemma fadd_nn:
  assumes "nn_float a" "nn_float b"
  shows "nn_float (fadd a b)"
  using assms
  by (cases a; cases b) (auto simp: fadd_def Let_def round_double_zero round_double_nn)

lemma int_to_float_fin: "int_to_float i = Inr f \<Longrightarrow> \<not> is_inf f"
  by (cases "round_double (i < 0) (of_int \<bar>i\<bar>)") (auto simp: int_to_float_def)

lemma int_to_float_nn: "0 \<le> i \<Longrightarrow> int_to_float i = Inr f \<Longrightarrow> nn_float f"
  using round_double_nn [of "of_int \<bar>i\<bar>"]
  by (cases "round_double (i < 0) (of_int \<bar>i\<bar>)") (auto simp: int_to_float_def)

lemma finite_num_PFloat: "finite_num (PFloat f) \<Longrightarrow> \<not> is_inf f"
  by (cases f) auto

lemma py_mul_nn:
  assumes "non_negative a" "finite_num a" "non_negative b" "finite_num b" "py_mul a b = Inr c"
  shows "non_negative c"
proof (cases a)
  case (PInt i)
  note a = this
  show ?thesis
  proof (cases b)
    case (PInt j)
    with a assms show ?thesis by (auto simp: non_negative_PInt)
  next
    case (PFloat g)
    from a PFloat assms obtain fa where fa: "int_to_float i = Inr fa" "c = PFloat (fmul fa g)"
      by (auto split: sum.splits)
    from assms a have "0 \<le> i" by (simp add: non_negative_PInt)
    with fa have "nn_float fa" "\<not> is_inf fa"
      by (auto dest: int_to_float_nn int_to_float_fin)
    moreover from assms PFloat have "nn_float g" "\<not> is_inf g"
      by (auto simp: non_negative_PFloat dest: finite_num_PFloat)
    ultimately show ?thesis using fa by (simp add: non_negative_PFloat fmul_nn)
  qed
next
  case (PFloat f)
  note a = this
  from assms a have f: "nn_float f" "\<not> is_inf f"
    by (auto simp: non_negative_PFloat dest: finite_num_PFloat)
  show ?thesis
  proof (cases b)
    case (PInt j)
    from a PInt assms obtain fb where fb: "int_to_float j = Inr fb" "c = PFloat (fmul f fb)"
      by (auto split: sum.splits)
    from assms PInt have "0 \<le> j" by (simp add: non_negative_PInt)
    with fb have "nn_float fb" "\<not> is_inf fb"
      by (auto dest: int_to_float_nn int_to_float_fin)
    with f fb show ?thesis by (simp add: non_negative_PFloat fmul_nn)
  next
    case (PFloat g)
    from assms PFloat have "nn_float g" "\<not> is_inf g"
      by (auto simp: non_negative_PFloat dest: finite_num_PFloat)
    with f a PFloat assms show ?thesis by (auto simp: non_negative_PFloat fmul_nn)
  qed
qed

lemma py_add_nn:
  assumes "non_negative a" "non_negative b" "py_add a b = Inr c"
  shows "non_negative c"
proof (cases a)
  case (PInt i)
  note a = this
  show ?thesis
  proof (cases b)
    case (PInt j)
    with a assms show ?thesis by (auto simp: non_negative_PInt)
  next
    case (PFloat g)
    from a PFloat assms obtain fa where fa: "int_to_float i = Inr fa" "c = PFloat (fadd fa g)"
      by (auto split: sum.splits)
    from assms a have "0 \<le> i" by (simp add: non_negative_PInt)
    with fa have "nn_float fa" by (auto dest: int_to_float_nn)
    moreover from assms PFloat have "nn_float g" by (simp add: non_negative_PFloat)
    ultimately show ?thesis using fa by (simp add: non_negative_PFloat fadd_nn)
  qed
next
  case (PFloat f)
  note a = this
  from assms a have f: "nn_float f" by (simp add: non_negative_PFloat)
  show ?thesis
  proof (cases b)
    case (PInt j)
    from a PInt assms obtain fb where fb: "int_to_float j = Inr fb" "c = PFloat (fadd f fb)"
      by (auto split: sum.splits)
    from assms PInt have "0 \<le> j" by (simp add: non_negative_PInt)
    with fb have "nn_float fb" by (auto dest: int_to_float_nn)
    with f fb show ?thesis by (simp add: non_negative_PFloat fadd_nn)
  next
    case (PFloat g)
    from assms PFloat have "nn_float g" by (simp add: non_negative_PFloat)
    with f a PFloat assms show ?thesis by (auto simp: non_negative_PFloat fadd_nn)
  qed
qed

text \<open>Multiplying a non-negative total by a positive finite factor.\<close>

lemma py_mul_factor_nn:
  assumes "non_negative t" "0 < k" "py_mul t (PFloat (Fin k)) = Inr c"
  shows "non_negative c"
proof (cases t)
  case (PInt i)
  from PInt assms obtain fa where fa: "int_to_float i = Inr fa" "c = PFloat (fmul fa (Fin k))"
    by (auto split: sum.splits)
  from assms PInt have "0 \<le> i" by (simp add: non_negative_PInt)
  with fa have "nn_float fa" by (auto dest: int_to_float_nn)
  with fa assms show ?thesis by (simp add: non_negative_PFloat fmul_nn)
next
  case (PFloat f)
  with assms have "nn_float f" by (simp add: non_negative_PFloat)
  with PFloat assms show ?thesis by (auto simp: non_negative_PFloat fmul_nn)
qed

section \<open>Facts about the total of an order\<close>

lemma valid_itemD:
  "valid_item item \<Longrightarrow> \<exists>p q. item ''price'' = Some p \<and> item ''quantity'' = Some q
     \<and> non_negative p \<and> finite_num p \<and> non_negative q \<and> finite_num q"
  by (auto simp: valid_item_def split: option.splits)

lemma calculate_total_nn:
  "non_negative acc \<Longrightarrow> \<forall>item \<in> set items. valid_item item
     \<Longrightarrow> calculate_total acc items = Inr t \<Longrightarrow> non_negative t"
proof (induction items arbitrary: acc)
  case Nil
  then show ?case by simp
next
  case (Cons item items)
  from Cons.prems obtain p q where pq: "item ''price'' = Some p" "item ''quantity'' = Some q"
    "non_negative p" "finite_num p" "non_negative q" "finite_num q"
    using valid_itemD [of item] by auto
  from Cons.prems pq obtain line acc' where
    l: "py_mul p q = Inr line" "py_add acc line = Inr acc'" "calculate_total acc' items = Inr t"
    by (auto split: sum.splits)
  from pq l have "non_negative line" by (auto intro: py_mul_nn)
  with Cons.prems l have "non_negative acc'" by (auto intro: py_add_nn)
  with Cons.IH [of acc'] Cons.prems l show ?case by simp
qed

lemma apply_discount_nn:
  "non_negative t \<Longrightarrow> apply_discount ot t = Inr t' \<Longrightarrow> non_negative t'"
  using py_mul_factor_nn [of t "8106479329266893 / 9007199254740992" t']
    py_mul_factor_nn [of t "4278419646001971 / 4503599627370496" t']
    py_mul_factor_nn [of t "3602879701896397 / 4503599627370496" t']
  by (auto simp: apply_discount_def float_lit_09 float_lit_095 float_lit_08 split: if_splits)

lemma validate_discount_code_nn:
  "non_negative t \<Longrightarrow> validate_discount_code dc t = Inr t' \<Longrightarrow> non_negative t'"
  using py_mul_factor_nn [of t "8106479329266893 / 9007199254740992" t']
    py_mul_factor_nn [of t "3602879701896397 / 4503599627370496" t']
  by (auto simp: validate_discount_code_def float_lit_09 float_lit_08 split: if_splits)

lemma order_total_nn:
  assumes "\<forall>item \<in> set items. valid_item item" "order_total ot items dc = Inr t"
  shows "non_negative t"
proof -
  from assms obtain t0 t1 where
    s: "calculate_total (PInt 0) items = Inr t0" "apply_discount ot t0 = Inr t1"
       "validate_discount_code dc t1 = Inr t"
    by (auto simp: order_total_def split: sum.splits)
  have "non_negative (PInt 0)" by (simp add: non_negative_PInt)
  with assms s have "non_negative t0" by (auto intro: calculate_total_nn)
  with s show ?thesis by (auto intro: apply_discount_nn validate_discount_code_nn)
qed

lemma py_eq_100: "py_eq t (PInt 100) \<Longrightarrow> t = PInt 100 \<or> t = PFloat (Fin 100)"
proof (cases t)
  case (PInt i)
  then show "py_eq t (PInt 100) \<Longrightarrow> ?thesis" by (simp add: py_eq_def)
next
  case (PFloat f)
  then show "py_eq t (PInt 100) \<Longrightarrow> ?thesis" by (cases f) (simp_all add: py_eq_def)
qed

lemma mul_100_09: "py_eq t (PInt 100) \<Longrightarrow>
    py_mul t (PFloat (Fin (8106479329266893 / 9007199254740992))) = Inr (PFloat (Fin 90))"
  by (auto dest!: py_eq_100 simp: int_to_float_100 fmul_100_09)

lemma mul_100_095: "py_eq t (PInt 100) \<Longrightarrow>
    py_mul t (PFloat (Fin (4278419646001971 / 4503599627370496))) = Inr (PFloat (Fin 95))"
  by (auto dest!: py_eq_100 simp: int_to_float_100 fmul_100_095)

lemma mul_100_08: "py_eq t (PInt 100) \<Longrightarrow>
    py_mul t (PFloat (Fin (3602879701896397 / 4503599627370496))) = Inr (PFloat (Fin 80))"
  by (auto dest!: py_eq_100 simp: int_to_float_100 fmul_100_08)

lemma calculate_total_malformed:
  assumes "item \<in> set items" "item ''price'' = None \<or> item ''quantity'' = None"
  shows "\<exists>x. calculate_total acc items = Inl x"
  using assms
proof (induction items arbitrary: acc)
  case Nil
  then show ?case by simp
next
  case (Cons i items)
  show ?case
  proof (cases "i = item")
    case True
    with Cons.prems show ?thesis by (auto split: option.splits)
  next
    case False
    with Cons.prems have "item \<in> set items" by simp
    from Cons.IH [OF this Cons.prems(2)] show ?thesis
      by (auto split: option.splits sum.splits)
  qed
qed

lemma calculate_total_int_items:
  "calculate_total (PInt a) (map (\<lambda>(p, q). line_item (PInt p) (PInt q)) pqs)
     = Inr (PInt (a + sum_list (map (\<lambda>(p, q). p * q) pqs)))"
  by (induction pqs arbitrary: a) (auto simp: line_item_def)

lemma total_of_eight_at_12_50:
  "calculate_total (PInt 0) [line_item (PFloat (Fin (25 / 2))) (PInt 8)] = Inr (PFloat (Fin 100))"
  by code_simp

section \<open>Facts about the effects of an order\<close>

lemma process_order_Inr:
  assumes "process_order self ot c e items dc = (Inr doc, self')"
  shows "\<exists>t. order_total ot items dc = Inr t \<and> completed_with self c e t doc self'"
  using assms
  by (auto simp: process_order_def save_send_format_def datetime_now_def execute_insert_def
      commit_def send_email_def format_order_def completed_with_def
      split: sum.splits option.splits if_splits)

lemma process_order_Inl:
  assumes "process_order self ot c e items dc = (Inl x, self')"
  shows "orders self' = orders self \<and> stdout self' = stdout self"
  using assms
  by (auto simp: process_order_def save_send_format_def datetime_now_def execute_insert_def
      commit_def send_email_def format_order_def
      split: sum.splits option.splits if_splits)

lemma premium_order_of_100:
  "process_order fresh_service ''premium'' ''Ann'' ''ann@example.org''
     [line_item (PInt 50) (PInt 2)] None
   = (Inr (JObject [(''customer'', JString ''Ann''), (''total'', JNumber (PFloat (Fin 90))),
        (''timestamp'', JString ''2024-05-01 09:30:00.000980'')]),
      fresh_service\<lparr>orders := Some [\<lparr>row_id = 1, row_customer = ''Ann'',
          row_total = Some (PFloat (Fin 90)), row_date = ''2024-05-01 09:30:00.000250''\<rparr>],
        stdout := [[Text ''Email sent to '', Text ''ann@example.org'', Text '' for $'',
          Shown (PFloat (Fin 90))]],
        ticks := 2\<rparr>)"
  by (simp add: process_order_def order_total_def line_item_def apply_discount_def
      validate_discount_code_def truthy_def float_lit_09 int_to_float_100 fmul_100_09
      save_send_format_def datetime_now_def execute_insert_def commit_def send_email_def
      format_order_def fresh_service_def next_rowid_def sqlite_value_def)

lemma non_negative_sqlite_value: "non_negative t \<Longrightarrow> sqlite_value t = Some t"
  by (auto simp: sqlite_value_def non_negative_PFloat)



lemma order_without_quantity:
  "process_order fresh_service ''premium'' ''Ann'' ''ann@example.org''
     [[''price'' \<mapsto> PInt 5]] None = (Inl (KeyError ''quantity''), fresh_service)"
  by (simp add: process_order_def order_total_def)

section \<open>The code against the listed steps\<close>








section \<open>The claims\<close>

text \<open>
  C1: for an order whose items sum to 100 (the loop ends with a total that Python compares
  equal to 100, an \<^verbatim>\<open>int\<close> or a \<^verbatim>\<open>float\<close>), the total computed by \<^verbatim>\<open>process_order\<close> is
  90 for order type \<^verbatim>\<open>'premium'\<close> without a discount code (\<^verbatim>\<open>None\<close> or the empty
  string), 85.5 for \<^verbatim>\<open>'regular'\<close> with code \<^verbatim>\<open>'SAVE10'\<close>, and 64 for \<^verbatim>\<open>'wholesale'\<close> with
  code \<^verbatim>\<open>'SAVE20'\<close>: the two discounts are
  multiplied one after the other, and each product is exact after rounding. That total is
  what the rest of \<^verbatim>\<open>process_order\<close> saves, announces and formats.
\<close>

theorem process_order_totals_for_100:
  assumes "calculate_total (PInt 0) items = Inr t" and "py_eq t (PInt 100)"
  shows "order_total ''premium'' items None = Inr (PFloat (Fin 90))
    \<and> order_total ''premium'' items (Some []) = Inr (PFloat (Fin 90))
    \<and> order_total ''regular'' items (Some ''SAVE10'') = Inr (PFloat (Fin (171 / 2)))
    \<and> order_total ''wholesale'' items (Some ''SAVE20'') = Inr (PFloat (Fin 64))
    \<and> process_order self ''premium'' c e items None
        = save_send_format self c e (PFloat (Fin 90))
    \<and> process_order self ''regular'' c e items (Some ''SAVE10'')
        = save_send_format self c e (PFloat (Fin (171 / 2)))
    \<and> process_order self ''wholesale'' c e items (Some ''SAVE20'')
        = save_send_format self c e (PFloat (Fin 64))"
proof -
  have p: "order_total ''premium'' items None = Inr (PFloat (Fin 90))"
    using assms
    by (simp add: order_total_def apply_discount_def validate_discount_code_def truthy_def
        float_lit_09 mul_100_09)
  have p': "order_total ''premium'' items (Some []) = Inr (PFloat (Fin 90))"
    using assms
    by (simp add: order_total_def apply_discount_def validate_discount_code_def truthy_def
        float_lit_09 mul_100_09)
  have r: "order_total ''regular'' items (Some ''SAVE10'') = Inr (PFloat (Fin (171 / 2)))"
    using assms
    by (simp add: order_total_def apply_discount_def validate_discount_code_def truthy_def
        float_lit_09 float_lit_095 mul_100_095 fmul_95_09)
  have w: "order_total ''wholesale'' items (Some ''SAVE20'') = Inr (PFloat (Fin 64))"
    using assms
    by (simp add: order_total_def apply_discount_def validate_discount_code_def truthy_def
        float_lit_08 mul_100_08 fmul_80_08)
  show ?thesis by (simp add: process_order_def p p' r w)
qed

theorem process_order_totals_for_100_witness:
  "calculate_total (PInt 0) [line_item (PFloat (Fin (25 / 2))) (PInt 8)] = Inr (PFloat (Fin 100))
   \<and> py_eq (PFloat (Fin 100)) (PInt 100)
   \<and> order_total ''premium'' [line_item (PFloat (Fin (25 / 2))) (PInt 8)] None
       = Inr (PFloat (Fin 90))
   \<and> order_total ''regular'' [line_item (PFloat (Fin (25 / 2))) (PInt 8)] (Some ''SAVE10'')
       = Inr (PFloat (Fin (171 / 2)))
   \<and> order_total ''wholesale'' [line_item (PFloat (Fin (25 / 2))) (PInt 8)] (Some ''SAVE20'')
       = Inr (PFloat (Fin 64))"
proof -
  have h: "py_eq (PFloat (Fin 100)) (PInt 100)" by (simp add: py_eq_def)
  from process_order_totals_for_100 [OF total_of_eight_at_12_50 h] total_of_eight_at_12_50 h
  show ?thesis by simp
qed




text \<open>
  C3: \<^verbatim>\<open>calculate_shipping(51)\<close> returns 25.99 and \<^verbatim>\<open>calculate_shipping(50)\<close> returns
  9.99, the binary64 values that these literals denote. In general the result is 25.99
  exactly when the weight is strictly greater than 50, and 9.99 otherwise: for an integer
  weight, for a finite float weight, and for the special floats (only \<^verbatim>\<open>inf\<close> is greater
  than 50; \<^verbatim>\<open>nan\<close> is not).
\<close>

theorem calculate_shipping_rates:
  "fst (calculate_shipping self (PInt 51)) = PFloat (Fin (7315534644709949 / 281474976710656))
   \<and> fst (calculate_shipping self (PInt 50)) = PFloat (Fin (5623870034678907 / 562949953421312))
   \<and> fst (calculate_shipping self (PInt i)) =
       (if 50 < i then PFloat (Fin (7315534644709949 / 281474976710656))
        else PFloat (Fin (5623870034678907 / 562949953421312)))
   \<and> fst (calculate_shipping self (PFloat (Fin r))) =
       (if 50 < r then PFloat (Fin (7315534644709949 / 281474976710656))
        else PFloat (Fin (5623870034678907 / 562949953421312)))
   \<and> fst (calculate_shipping self (PFloat PosInf))
       = PFloat (Fin (7315534644709949 / 281474976710656))
   \<and> fst (calculate_shipping self (PFloat NegInf))
       = PFloat (Fin (5623870034678907 / 562949953421312))
   \<and> fst (calculate_shipping self (PFloat NegZero))
       = PFloat (Fin (5623870034678907 / 562949953421312))
   \<and> fst (calculate_shipping self (PFloat NaN))
       = PFloat (Fin (5623870034678907 / 562949953421312))"
proof -
  have gt_int: "py_gt (PInt j) (PInt 50) = (50 < j)" for j
    by (simp add: py_gt_def)
  have gt_fin: "py_gt (PFloat (Fin r)) (PInt 50) = (50 < r)"
    by (simp add: py_gt_def)
  have gt_special: "py_gt (PFloat PosInf) (PInt 50)" "\<not> py_gt (PFloat NegInf) (PInt 50)"
    "\<not> py_gt (PFloat NegZero) (PInt 50)" "\<not> py_gt (PFloat NaN) (PInt 50)"
    by (simp_all add: py_gt_def)
  show ?thesis
    by (simp add: calculate_shipping_def gt_int gt_fin gt_special float_lit_2599 float_lit_999)
qed

text \<open>
  C4: \<^verbatim>\<open>is_premium_customer("VIP123")\<close> is true, \<^verbatim>\<open>is_premium_customer("Bob")\<close> is false,
  and for every string the result is true exactly when \<^verbatim>\<open>'VIP'\<close> is a prefix of it.
\<close>

theorem is_premium_customer_prefix:
  "fst (is_premium_customer self (VStr ''VIP123'')) = True
   \<and> fst (is_premium_customer self (VStr ''Bob'')) = False
   \<and> fst (is_premium_customer self (VStr s)) = prefix ''VIP'' s"
proof -
  have "take (length ''VIP'') s = ''VIP'' \<longleftrightarrow> prefix ''VIP'' s"
    by (metis prefix_def take_is_prefix append_eq_conv_conj)
  then show ?thesis
    by (simp add: is_premium_customer_def startswith_def)
qed

text \<open>
  C5: no exception is caught. When the items contain a dictionary without the key
  \<^verbatim>\<open>'price'\<close> or without the key \<^verbatim>\<open>'quantity'\<close>, \<^verbatim>\<open>process_order\<close> raises, and the state
  is the one it started in: no record is inserted, nothing is printed.
\<close>

theorem malformed_item_raises:
  assumes "item \<in> set items" and "item ''price'' = None \<or> item ''quantity'' = None"
  shows "\<exists>x. process_order self ot c e items dc = (Inl x, self)"
proof -
  from calculate_total_malformed [OF assms] obtain x where
    "calculate_total (PInt 0) items = Inl x" by blast
  then show ?thesis by (simp add: process_order_def order_total_def)
qed

theorem malformed_item_raises_witness:
  "[''price'' \<mapsto> PInt 5] \<in> set [line_item (PInt 50) (PInt 2), [''price'' \<mapsto> PInt 5]]
   \<and> ([''price'' \<mapsto> PInt 5] :: item) ''quantity'' = None
   \<and> (\<exists>x. process_order fresh_service ''premium'' ''Ann'' ''ann@example.org''
          [line_item (PInt 50) (PInt 2), [''price'' \<mapsto> PInt 5]] None = (Inl x, fresh_service))"
proof -
  have m: "[''price'' \<mapsto> PInt 5] \<in> set [line_item (PInt 50) (PInt 2), [''price'' \<mapsto> PInt 5]]"
    by simp
  have q: "([''price'' \<mapsto> PInt 5] :: item) ''price'' = None
      \<or> ([''price'' \<mapsto> PInt 5] :: item) ''quantity'' = None"
    by simp
  from malformed_item_raises [OF m q] m show ?thesis by simp
qed

text \<open>
  C6, as stated: when every price and quantity is non-negative, the total is non-negative.
  It fails for an item with price \<^verbatim>\<open>inf\<close> and quantity 0, both \<^verbatim>\<open>>= 0\<close>: the product is
  \<^verbatim>\<open>nan\<close>, the total stays \<^verbatim>\<open>nan\<close>, and \<^verbatim>\<open>nan >= 0\<close> is false.
\<close>

theorem non_negative_total_counterexample:
  "non_negative (PFloat PosInf) \<and> non_negative (PInt 0)
   \<and> order_total ''premium'' [line_item (PFloat PosInf) (PInt 0)] None = Inr (PFloat NaN)
   \<and> \<not> non_negative (PFloat NaN)
   \<and> fst (process_order fresh_service ''premium'' ''Ann'' ''ann@example.org''
        [line_item (PFloat PosInf) (PInt 0)] None)
       = Inr (JObject [(''customer'', JString ''Ann''), (''total'', JNumber (PFloat NaN)),
           (''timestamp'', JString ''2024-05-01 09:30:00.000980'')])"
proof -
  have z: "int_to_float 0 = Inr (Fin 0)"
    by (simp add: int_to_float_def round_double_zero)
  have t: "order_total ''premium'' [line_item (PFloat PosInf) (PInt 0)] None = Inr (PFloat NaN)"
    by (simp add: order_total_def line_item_def z fmul_def fadd_def apply_discount_def
        validate_discount_code_def truthy_def)
  show ?thesis
    by (simp add: t non_negative_PFloat non_negative_PInt process_order_def
        save_send_format_def datetime_now_def execute_insert_def commit_def send_email_def
        format_order_def fresh_service_def next_rowid_def)
qed

text \<open>
  C6, amended: when every item has a price and a quantity that are non-negative and finite
  (an \<^verbatim>\<open>int\<close>, or a \<^verbatim>\<open>float\<close> other than \<^verbatim>\<open>inf\<close> and \<^verbatim>\<open>nan\<close>), every total that
  \<^verbatim>\<open>process_order\<close> computes is \<^verbatim>\<open>>= 0\<close> (it is \<^verbatim>\<open>inf\<close> when a float operation
  overflows), and a call that returns has saved, announced and returned such a total (the
  saved value is the total itself, not \<^verbatim>\<open>NULL\<close>).
\<close>

theorem non_negative_total:
  assumes "\<forall>item \<in> set items. valid_item item"
  shows "(\<forall>t. order_total ot items dc = Inr t \<longrightarrow> non_negative t)
    \<and> (\<forall>doc self'. process_order self ot c e items dc = (Inr doc, self') \<longrightarrow>
          (\<exists>t. non_negative t \<and> order_total ot items dc = Inr t
             \<and> completed_with self c e t doc self' \<and> sqlite_value t = Some t))"
  using order_total_nn [OF assms] process_order_Inr non_negative_sqlite_value by blast

theorem non_negative_total_witness:
  "valid_item (line_item (PFloat (Fin (25 / 2))) (PInt 8))
   \<and> order_total ''regular'' [line_item (PFloat (Fin (25 / 2))) (PInt 8)] (Some ''SAVE10'')
       = Inr (PFloat (Fin (171 / 2)))
   \<and> non_negative (PFloat (Fin (171 / 2)))"
proof -
  have v: "valid_item (line_item (PFloat (Fin (25 / 2))) (PInt 8))"
    by (simp add: valid_item_def line_item_def non_negative_PFloat non_negative_PInt)
  then have h: "\<forall>item \<in> set [line_item (PFloat (Fin (25 / 2))) (PInt 8)]. valid_item item"
    by simp
  have t: "order_total ''regular'' [line_item (PFloat (Fin (25 / 2))) (PInt 8)] (Some ''SAVE10'')
       = Inr (PFloat (Fin (171 / 2)))"
    by code_simp
  from non_negative_total [OF h, of "''regular''" "Some ''SAVE10''"] t v
  show ?thesis by simp
qed

text \<open>
  C7, as stated: each call of \<^verbatim>\<open>process_order\<close> inserts exactly one record. It fails for
  a call that raises before the \<^verbatim>\<open>INSERT\<close>: with an item that has no quantity, the table
  is as empty after the call as before.
\<close>

theorem one_record_per_invocation_counterexample:
  "fst (process_order fresh_service ''premium'' ''Ann'' ''ann@example.org''
      [[''price'' \<mapsto> PInt 5]] None) = Inl (KeyError ''quantity'')
   \<and> orders (snd (process_order fresh_service ''premium'' ''Ann'' ''ann@example.org''
      [[''price'' \<mapsto> PInt 5]] None)) = Some []
   \<and> orders fresh_service = Some []"
  by (simp add: process_order_def order_total_def fresh_service_def)

text \<open>
  C7, amended: a call of \<^verbatim>\<open>process_order\<close> that returns has appended exactly one record,
  for its customer, to the records that were there; a call that raises leaves the records
  as they were; \<^verbatim>\<open>get_order_by_id\<close>, \<^verbatim>\<open>calculate_shipping\<close>, \<^verbatim>\<open>is_premium_customer\<close>,
  \<^verbatim>\<open>send_email\<close> and \<^verbatim>\<open>format_order\<close> leave them as they were. No operation changes or
  removes an existing record.
\<close>

theorem order_records_append_only:
  "(process_order self ot c e items dc = (Inr doc, self') \<longrightarrow>
      (\<exists>rows r. orders self = Some rows \<and> orders self' = Some (rows @ [r])
         \<and> row_customer r = c))
   \<and> (process_order self ot c e items dc = (Inl x, self') \<longrightarrow> orders self' = orders self)
   \<and> orders (snd (get_order_by_id self order_id)) = orders self
   \<and> orders (snd (calculate_shipping self weight)) = orders self
   \<and> orders (snd (is_premium_customer self name)) = orders self
   \<and> orders (send_email self email amount) = orders self
   \<and> orders (snd (format_order self customer amount)) = orders self"
proof -
  have a: "process_order self ot c e items dc = (Inr doc, self') \<longrightarrow>
      (\<exists>rows r. orders self = Some rows \<and> orders self' = Some (rows @ [r])
         \<and> row_customer r = c)"
    by (auto dest!: process_order_Inr simp: completed_with_def split: option.splits)
  have b: "process_order self ot c e items dc = (Inl x, self') \<longrightarrow> orders self' = orders self"
    by (auto dest: process_order_Inl)
  have g: "orders (snd (get_order_by_id self order_id)) = orders self"
    by (simp add: get_order_by_id_def split: option.splits list.splits)
  have s: "orders (snd (calculate_shipping self weight)) = orders self"
    by (simp add: calculate_shipping_def)
  have p: "orders (snd (is_premium_customer self name)) = orders self"
    by (simp add: is_premium_customer_def split: pyval.splits)
  have m: "orders (send_email self email amount) = orders self"
    by (simp add: send_email_def)
  have f: "orders (snd (format_order self customer amount)) = orders self"
    by (simp add: format_order_def datetime_now_def)
  from a b g s p m f show ?thesis by blast
qed

theorem order_records_append_only_witness:
  "(\<exists>rows r. orders fresh_service = Some rows
      \<and> orders (snd (process_order fresh_service ''premium'' ''Ann'' ''ann@example.org''
            [line_item (PInt 50) (PInt 2)] None)) = Some (rows @ [r])
      \<and> row_customer r = ''Ann'')
   \<and> orders (snd (process_order fresh_service ''premium'' ''Ann'' ''ann@example.org''
        [[''price'' \<mapsto> PInt 5]] None)) = orders fresh_service"
proof -
  have ok: "process_order fresh_service ''premium'' ''Ann'' ''ann@example.org''
      [line_item (PInt 50) (PInt 2)] None
    = (Inr (JObject [(''customer'', JString ''Ann''), (''total'', JNumber (PFloat (Fin 90))),
          (''timestamp'', JString ''2024-05-01 09:30:00.000980'')]),
       snd (process_order fresh_service ''premium'' ''Ann'' ''ann@example.org''
         [line_item (PInt 50) (PInt 2)] None))"
    by (simp add: premium_order_of_100)
  have bad: "process_order fresh_service ''premium'' ''Ann'' ''ann@example.org''
      [[''price'' \<mapsto> PInt 5]] None
    = (Inl (KeyError ''quantity''),
       snd (process_order fresh_service ''premium'' ''Ann'' ''ann@example.org''
         [[''price'' \<mapsto> PInt 5]] None))"
    by (simp add: order_without_quantity)
  from order_records_append_only
    [where self = fresh_service and ot = "''premium''" and c = "''Ann''"
       and e = "''ann@example.org''" and items = "[line_item (PInt 50) (PInt 2)]"
       and dc = None
       and doc = "JObject [(''customer'', JString ''Ann''),
         (''total'', JNumber (PFloat (Fin 90))),
         (''timestamp'', JString ''2024-05-01 09:30:00.000980'')]"
       and self' = "snd (process_order fresh_service ''premium'' ''Ann'' ''ann@example.org''
         [line_item (PInt 50) (PInt 2)] None)"] ok
  have one: "\<exists>rows r. orders fresh_service = Some rows
      \<and> orders (snd (process_order fresh_service ''premium'' ''Ann'' ''ann@example.org''
            [line_item (PInt 50) (PInt 2)] None)) = Some (rows @ [r])
      \<and> row_customer r = ''Ann''"
    by blast
  from order_records_append_only
    [where self = fresh_service and ot = "''premium''" and c = "''Ann''"
       and e = "''ann@example.org''" and items = "[[''price'' \<mapsto> PInt 5]]"
       and dc = None and x = "KeyError ''quantity''"
       and self' = "snd (process_order fresh_service ''premium'' ''Ann'' ''ann@example.org''
         [[''price'' \<mapsto> PInt 5]] None)"] bad
  have none: "orders (snd (process_order fresh_service ''premium'' ''Ann'' ''ann@example.org''
        [[''price'' \<mapsto> PInt 5]] None)) = orders fresh_service"
    by blast
  from one none show ?thesis by blast
qed

text \<open>
  C8: \<^verbatim>\<open>calculate_shipping\<close> and \<^verbatim>\<open>is_premium_customer\<close> are deterministic and neither
  read nor write the service: two calls with the same argument on any two states return the
  same result, and each leaves its state (database, cursor, output, clock) as it was.
\<close>

theorem auxiliary_methods_pure:
  "fst (calculate_shipping s1 weight) = fst (calculate_shipping s2 weight)
   \<and> snd (calculate_shipping s1 weight) = s1
   \<and> fst (is_premium_customer s1 name) = fst (is_premium_customer s2 name)
   \<and> snd (is_premium_customer s1 name) = s1"
  by (auto simp: calculate_shipping_def is_premium_customer_def split: pyval.splits)

text \<open>
  C9: when the order type is none of \<^verbatim>\<open>'premium'\<close>, \<^verbatim>\<open>'regular'\<close>, \<^verbatim>\<open>'wholesale'\<close> and the
  discount code is \<^verbatim>\<open>None\<close>, empty, or any string other than \<^verbatim>\<open>'SAVE10'\<close> and
  \<^verbatim>\<open>'SAVE20'\<close>, the total is what the loop over the items computed, with no multiplication:
  for items with integer prices and quantities, the sum of the products. An unknown code
  raises nothing.
\<close>

theorem unrecognised_discounts_ignored:
  assumes "ot \<notin> {''premium'', ''regular'', ''wholesale''}"
    and "dc \<notin> {Some ''SAVE10'', Some ''SAVE20''}"
  shows "order_total ot items dc = calculate_total (PInt 0) items
    \<and> process_order self ot c e items dc =
        (case calculate_total (PInt 0) items of
           Inl x \<Rightarrow> (Inl x, self)
         | Inr t \<Rightarrow> save_send_format self c e t)
    \<and> order_total ot (map (\<lambda>(p, q). line_item (PInt p) (PInt q)) pqs) dc
        = Inr (PInt (sum_list (map (\<lambda>(p, q). p * q) pqs)))"
proof -
  have t: "order_total ot its dc = calculate_total (PInt 0) its" for its
    using assms
    by (auto simp: order_total_def apply_discount_def validate_discount_code_def
        split: sum.splits)
  show ?thesis
    by (simp add: t process_order_def calculate_total_int_items)
qed

theorem unrecognised_discounts_ignored_witness:
  "''standard'' \<notin> {''premium'', ''regular'', ''wholesale''}
   \<and> Some ''BOGUS'' \<notin> {Some ''SAVE10'', Some ''SAVE20''}
   \<and> order_total ''standard'' [line_item (PInt 50) (PInt 2)] (Some ''BOGUS'') = Inr (PInt 100)"
proof -
  have a: "''standard'' \<notin> {''premium'', ''regular'', ''wholesale''}" by simp
  have b: "Some ''BOGUS'' \<notin> {Some ''SAVE10'', Some ''SAVE20''}" by simp
  from unrecognised_discounts_ignored [OF a b, of "[line_item (PInt 50) (PInt 2)]"] a b
  show ?thesis by (simp add: line_item_def)
qed

text \<open>
  C10: \<^verbatim>\<open>is_premium_customer\<close> returns a value for every argument, and for every
  argument that is not a string (\<^verbatim>\<open>None\<close>, a boolean, a number, a list) that value is
  \<^verbatim>\<open>False\<close>: no branch raises, and the service is left as it was.
\<close>

theorem is_premium_customer_non_string:
  assumes "\<And>s. v \<noteq> VStr s"
  shows "is_premium_customer self v = (False, self)"
proof (cases v)
  case (VStr s)
  with assms [of s] show ?thesis by blast
qed (simp_all add: is_premium_customer_def)

theorem is_premium_customer_non_string_witness:
  "(\<forall>s. VNum (PInt 7) \<noteq> VStr s)
   \<and> is_premium_customer fresh_service (VNum (PInt 7)) = (False, fresh_service)
   \<and> is_premium_customer fresh_service (VList [VStr ''VIP'']) = (False, fresh_service)
   \<and> is_premium_customer fresh_service VNone = (False, fresh_service)"
proof -
  have a: "\<And>s. VNum (PInt 7) \<noteq> VStr s" by simp
  have b: "\<And>s. VList [VStr ''VIP''] \<noteq> VStr s" by simp
  have c: "\<And>s. VNone \<noteq> VStr s" by simp
  from is_premium_customer_non_string [OF a] is_premium_customer_non_string [OF b]
    is_premium_customer_non_string [OF c]
  show ?thesis by simp
qed

end
